theory Spec2Isabelle
  imports Complex_Main
begin

section \<open>Data model of \<open>check_aws_budgets.py\<close>\<close>

text \<open>
  The plug-in reads budget descriptions as nested Python dictionaries (the response of the
  AWS Budgets API). A subscript \<open>d['k']\<close> on a dictionary without the key raises
  \<open>KeyError\<close>, so every key the code reads is an optional field here: \<open>None\<close> is
  the missing key. Amounts arrive as strings (\<open>'100.0'\<close>), the unit as a string.
\<close>

datatype py_exn =
    KeyError string
  | ValueError string
  | BotoCoreError string
  | ClientError string

record money =
  Amount :: "string option"
  Unit :: "string option"

record spend =
  ActualSpend :: "money option"
  ForecastedSpend :: "money option"

record budget =
  BudgetName :: "string option"
  BudgetLimit :: "money option"
  CalculatedSpend :: "spend option"

text \<open>The four plug-in states (lines 17 to 20).\<close>

definition STATE_OK :: nat where "STATE_OK = 0"
definition STATE_WARN :: nat where "STATE_WARN = 1"
definition STATE_CRIT :: nat where "STATE_CRIT = 2"
definition STATE_UNKNOWN :: nat where "STATE_UNKNOWN = 3"

text \<open>
  How a run ends: \<open>sys.exit(code)\<close> after one \<open>print\<close> of a line, or an exception
  that nothing catches (the interpreter then prints a traceback and no plug-in line).
\<close>

datatype outcome =
    Exit nat string
  | Uncaught py_exn

section \<open>Python primitives\<close>

text \<open>Sequencing of computations that may raise: the first exception wins.\<close>

definition and_then :: "'e + 'a \<Rightarrow> ('a \<Rightarrow> 'e + 'b) \<Rightarrow> 'e + 'b" where
  "and_then m f = (case m of Inl e \<Rightarrow> Inl e | Inr x \<Rightarrow> f x)"

text \<open>\<open>d[key]\<close> on a dictionary.\<close>

definition subscript :: "string \<Rightarrow> 'a option \<Rightarrow> py_exn + 'a" where
  "subscript key v = (case v of None \<Rightarrow> Inl (KeyError key) | Some x \<Rightarrow> Inr x)"

text \<open>
  \<open>float(s)\<close> on a string: the parser \<open>flt\<close> is a parameter of the model, \<open>None\<close>
  where Python raises \<open>ValueError\<close>. The type \<open>'n\<close> of its values stands for Python's
  floats; the code only compares them with \<open>>\<close> and formats them with \<open>:.2f\<close>
  (the parameter \<open>fmt2\<close> below).
\<close>

definition py_float :: "(string \<Rightarrow> 'n option) \<Rightarrow> string \<Rightarrow> py_exn + 'n" where
  "py_float flt s = (case flt s of None \<Rightarrow> Inl (ValueError s) | Some x \<Rightarrow> Inr x)"

text \<open>\<open>try: body except KeyError: handler\<close>: only a \<open>KeyError\<close> reaches the handler.\<close>

definition try_except_KeyError :: "py_exn + 'a \<Rightarrow> py_exn + 'a \<Rightarrow> py_exn + 'a" where
  "try_except_KeyError body handler =
     (case body of
        Inl (KeyError k) \<Rightarrow> handler
      | Inl e \<Rightarrow> Inl e
      | Inr x \<Rightarrow> Inr x)"

text \<open>\<open>sep.join(xs)\<close>.\<close>

fun join :: "string \<Rightarrow> string list \<Rightarrow> string" where
  "join sep [] = []"
| "join sep [x] = x"
| "join sep (x # y # ys) = x @ sep @ join sep (y # ys)"

text \<open>\<open>res[key].append(item)\<close> on the dictionary \<open>{True: [], False: []}\<close>.\<close>

definition res_append :: "(bool \<Rightarrow> string list) \<Rightarrow> bool \<Rightarrow> string \<Rightarrow> (bool \<Rightarrow> string list)" where
  "res_append res key item = res(key := res key @ [item])"

section \<open>The subscripts the code reads\<close>

text \<open>
  The nested subscripts of lines 70, 72, 75 and 88 to 90, each raising \<open>KeyError\<close> at
  the first missing key:
  \<open>budget['BudgetLimit']['Amount']\<close>,
  \<open>budget['CalculatedSpend']['ForecastedSpend']['Amount']\<close>,
  \<open>budget['CalculatedSpend']['ActualSpend']['Amount']\<close> and
  \<open>budget['CalculatedSpend']['ActualSpend']['Unit']\<close>.
\<close>

definition limit_amount :: "budget \<Rightarrow> py_exn + string" where
  "limit_amount budget =
     and_then (subscript ''BudgetLimit'' (BudgetLimit budget))
       (\<lambda>d. subscript ''Amount'' (Amount d))"

definition forecast_amount :: "budget \<Rightarrow> py_exn + string" where
  "forecast_amount budget =
     and_then (and_then (subscript ''CalculatedSpend'' (CalculatedSpend budget))
       (\<lambda>d. subscript ''ForecastedSpend'' (ForecastedSpend d)))
       (\<lambda>d. subscript ''Amount'' (Amount d))"

definition actual_amount :: "budget \<Rightarrow> py_exn + string" where
  "actual_amount budget =
     and_then (and_then (subscript ''CalculatedSpend'' (CalculatedSpend budget))
       (\<lambda>d. subscript ''ActualSpend'' (ActualSpend d)))
       (\<lambda>d. subscript ''Amount'' (Amount d))"

definition actual_unit :: "budget \<Rightarrow> py_exn + string" where
  "actual_unit budget =
     and_then (and_then (subscript ''CalculatedSpend'' (CalculatedSpend budget))
       (\<lambda>d. subscript ''ActualSpend'' (ActualSpend d)))
       (\<lambda>d. subscript ''Unit'' (Unit d))"

section \<open>\<open>get_overspend\<close> (lines 58 to 77)\<close>

text \<open>
  One pass of the loop body (lines 69 to 76): the key of \<open>res\<close> that is chosen and the
  string appended under it. The string of line 76 has no \<open>f\<close> prefix in the source, so
  it is the literal text of the template, braces included.
\<close>

definition overspend_entry ::
  "(string \<Rightarrow> 'n::ord option) \<Rightarrow> ('n \<Rightarrow> string) \<Rightarrow> budget \<Rightarrow> py_exn + bool \<times> string" where
  "overspend_entry flt fmt2 budget =
     and_then (subscript ''BudgetName'' (BudgetName budget)) (\<lambda>name.
     and_then (and_then (limit_amount budget) (py_float flt)) (\<lambda>limit.
     try_except_KeyError
       (and_then (and_then (forecast_amount budget) (py_float flt)) (\<lambda>forecast.
          Inr (forecast > limit,
               name @ ''(fcst:'' @ fmt2 forecast @ '';limit:'' @ fmt2 limit @ '')'')))
       (and_then (and_then (actual_amount budget) (py_float flt)) (\<lambda>actual.
          Inr (actual > limit, ''{name}(act:{actual:.2f};limit:{limit:.2f})'')))))"

fun overspend_loop ::
  "(string \<Rightarrow> 'n::ord option) \<Rightarrow> ('n \<Rightarrow> string) \<Rightarrow> (bool \<Rightarrow> string list) \<Rightarrow> budget list
     \<Rightarrow> py_exn + (bool \<Rightarrow> string list)" where
  "overspend_loop flt fmt2 res [] = Inr res"
| "overspend_loop flt fmt2 res (budget # budgets) =
     (case overspend_entry flt fmt2 budget of
        Inl e \<Rightarrow> Inl e
      | Inr (key, item) \<Rightarrow> overspend_loop flt fmt2 (res_append res key item) budgets)"

definition get_overspend ::
  "(string \<Rightarrow> 'n::ord option) \<Rightarrow> ('n \<Rightarrow> string) \<Rightarrow> budget list
     \<Rightarrow> py_exn + (bool \<Rightarrow> string list)" where
  "get_overspend flt fmt2 budgets = overspend_loop flt fmt2 (\<lambda>key. []) budgets"

text \<open>What the loop body decides for one record, read off \<open>overspend_entry\<close>.\<close>

definition is_overspent :: "(string \<Rightarrow> 'n::ord option) \<Rightarrow> ('n \<Rightarrow> string) \<Rightarrow> budget \<Rightarrow> bool" where
  "is_overspent flt fmt2 budget =
     (case overspend_entry flt fmt2 budget of Inr (key, item) \<Rightarrow> key | Inl e \<Rightarrow> False)"

definition descriptor :: "(string \<Rightarrow> 'n::ord option) \<Rightarrow> ('n \<Rightarrow> string) \<Rightarrow> budget \<Rightarrow> string" where
  "descriptor flt fmt2 budget =
     (case overspend_entry flt fmt2 budget of Inr (key, item) \<Rightarrow> item | Inl e \<Rightarrow> [])"

section \<open>\<open>get_perfdata\<close> (lines 80 to 93)\<close>

definition perfdata_token :: "budget \<Rightarrow> py_exn + string" where
  "perfdata_token budget =
     and_then (subscript ''BudgetName'' (BudgetName budget)) (\<lambda>label.
     and_then (actual_amount budget) (\<lambda>value.
     and_then (actual_unit budget) (\<lambda>uom.
     and_then (limit_amount budget) (\<lambda>limit.
     Inr ([CHR 0x27] @ label @ [CHR 0x27] @ ''='' @ value @ uom
            @ '';'' @ limit @ '';'' @ limit)))))"

fun perfdata_loop :: "string list \<Rightarrow> budget list \<Rightarrow> py_exn + string list" where
  "perfdata_loop perfdata [] = Inr perfdata"
| "perfdata_loop perfdata (budget # budgets) =
     (case perfdata_token budget of
        Inl e \<Rightarrow> Inl e
      | Inr token \<Rightarrow> perfdata_loop (perfdata @ [token]) budgets)"

definition get_perfdata :: "budget list \<Rightarrow> py_exn + string" where
  "get_perfdata budgets =
     (case perfdata_loop [] budgets of
        Inl e \<Rightarrow> Inl e
      | Inr perfdata \<Rightarrow> Inr (''| '' @ join '' '' perfdata))"

section \<open>The provider and \<open>main\<close>\<close>

text \<open>
  The AWS client is the environment of the run: what each call of the SDK returns or
  raises. \<open>paginate\<close> gives the pages of \<open>describe_budgets\<close>, or the exception that
  ends the iteration.
\<close>

record aws =
  get_caller_identity :: "py_exn + string"
  describe_budget :: "string \<Rightarrow> string \<Rightarrow> py_exn + budget"
  paginate :: "string \<Rightarrow> py_exn + budget list list"

text \<open>
  \<open>fetch_budget\<close> (lines 23 to 35) catches \<open>BotoCoreError\<close> and \<open>ClientError\<close>;
  \<open>fetch_budgets\<close> (lines 38 to 55) catches \<open>BotoCoreError\<close> only. \<open>Inl\<close> is a run
  that ended inside the function: by \<open>sys.exit\<close> after the \<open>UNKNOWN\<close> line, or by an
  exception that the \<open>except\<close> clause does not name.
\<close>

definition fetch_budget :: "aws \<Rightarrow> string \<Rightarrow> outcome + budget" where
  "fetch_budget client name =
     (case and_then (get_caller_identity client)
             (\<lambda>account. describe_budget client account name) of
        Inr b \<Rightarrow> Inr b
      | Inl (BotoCoreError err) \<Rightarrow> Inl (Exit STATE_UNKNOWN (''UNKNOWN - '' @ err))
      | Inl (ClientError err) \<Rightarrow> Inl (Exit STATE_UNKNOWN (''UNKNOWN - '' @ err))
      | Inl e \<Rightarrow> Inl (Uncaught e))"

fun collect_page :: "budget list \<Rightarrow> budget list \<Rightarrow> budget list" where
  "collect_page budgets [] = budgets"
| "collect_page budgets (b # page) = collect_page (budgets @ [b]) page"

fun collect_pages :: "budget list \<Rightarrow> budget list list \<Rightarrow> budget list" where
  "collect_pages budgets [] = budgets"
| "collect_pages budgets (page # pages) = collect_pages (collect_page budgets page) pages"

definition fetch_budgets :: "aws \<Rightarrow> outcome + budget list" where
  "fetch_budgets client =
     (case and_then (get_caller_identity client) (\<lambda>account. paginate client account) of
        Inr pages \<Rightarrow> Inr (collect_pages [] pages)
      | Inl (BotoCoreError err) \<Rightarrow> Inl (Exit STATE_UNKNOWN (''UNKNOWN - '' @ err))
      | Inl e \<Rightarrow> Inl (Uncaught e))"

text \<open>
  \<open>main\<close> (lines 96 to 116), in its three parts. \<open>arg\<close> is the value of \<open>--budget\<close>,
  \<open>None\<close> when the option is not given; an empty name is falsy and selects the
  all-budgets mode (lines 103 to 106). \<open>evaluate\<close> is lines 108 and 109, \<open>report\<close>
  lines 111 to 116. The text of an \<open>Exit\<close> is the argument of \<open>print\<close>.
\<close>

definition fetch :: "aws \<Rightarrow> string option \<Rightarrow> outcome + budget list" where
  "fetch client arg =
     (case arg of
        None \<Rightarrow> fetch_budgets client
      | Some name \<Rightarrow>
          if name \<noteq> [] then map_sum id (\<lambda>b. [b]) (fetch_budget client name)
          else fetch_budgets client)"

definition report :: "(bool \<Rightarrow> string list) \<Rightarrow> string \<Rightarrow> outcome" where
  "report overspend perfadata =
     (if overspend True \<noteq> []
      then Exit STATE_CRIT
             (''Budget forecast exceeds limit: '' @ join '', '' (overspend True) @ perfadata)
      else Exit STATE_OK
             (''Budgets forecast within limit: '' @ join '', '' (overspend False) @ perfadata))"

definition evaluate ::
  "(string \<Rightarrow> 'n::ord option) \<Rightarrow> ('n \<Rightarrow> string) \<Rightarrow> budget list \<Rightarrow> outcome" where
  "evaluate flt fmt2 budgets =
     (case get_overspend flt fmt2 budgets of
        Inl e \<Rightarrow> Uncaught e
      | Inr overspend \<Rightarrow>
          (case get_perfdata budgets of
             Inl e \<Rightarrow> Uncaught e
           | Inr perfadata \<Rightarrow> report overspend perfadata))"

definition main ::
  "(string \<Rightarrow> 'n::ord option) \<Rightarrow> ('n \<Rightarrow> string) \<Rightarrow> aws \<Rightarrow> string option \<Rightarrow> outcome" where
  "main flt fmt2 client arg =
     (case fetch client arg of
        Inl out \<Rightarrow> out
      | Inr budgets \<Rightarrow> evaluate flt fmt2 budgets)"

text \<open>A record with its \<open>ForecastedSpend\<close> entry replaced (or removed).\<close>

definition with_forecast :: "money option \<Rightarrow> budget \<Rightarrow> budget" where
  "with_forecast fc b =
     b\<lparr>CalculatedSpend := map_option (\<lambda>cs. cs\<lparr>ForecastedSpend := fc\<rparr>) (CalculatedSpend b)\<rparr>"

text \<open>The run ended in the plug-in state \<open>UNKNOWN\<close>.\<close>

definition ends_unknown :: "outcome \<Rightarrow> bool" where
  "ends_unknown out = (case out of Exit code line \<Rightarrow> code = STATE_UNKNOWN | Uncaught e \<Rightarrow> False)"

section \<open>A decimal reading of \<open>float\<close> and \<open>:.2f\<close> for concrete runs\<close>

text \<open>
  The theorems below hold for every parser \<open>flt\<close> and formatter \<open>fmt2\<close>. Concrete runs
  need one instance: \<open>dec_float\<close> reads unsigned literals \<open>digits\<close> and
  \<open>digits.digits\<close> as exact rationals, \<open>dec_fmt2\<close> prints a rational with two
  decimals, rounding half to even. On the literals used below (\<open>80.00\<close>, \<open>100.0\<close>,
  \<open>100.00\<close>, \<open>120.00\<close>), whose values binary floats hold exactly, they give what
  \<open>float\<close> and \<open>:.2f\<close> give.
\<close>

definition digit_of :: "char \<Rightarrow> nat option" where
  "digit_of c =
     (let k = (of_char c :: nat) in if 48 \<le> k \<and> k \<le> 57 then Some (k - 48) else None)"

fun dec_digits :: "nat \<Rightarrow> string \<Rightarrow> nat option" where
  "dec_digits acc [] = Some acc"
| "dec_digits acc (c # cs) =
     (case digit_of c of None \<Rightarrow> None | Some d \<Rightarrow> dec_digits (10 * acc + d) cs)"

definition dec_float :: "string \<Rightarrow> rat option" where
  "dec_float s =
     (let ip = takeWhile (\<lambda>c. c \<noteq> CHR ''.'') s;
          fp = drop (Suc (length ip)) s
      in if ip = [] \<or> (fp = [] \<and> length ip < length s) then None
         else case (dec_digits 0 ip, dec_digits 0 fp) of
                (Some i, Some f) \<Rightarrow> Some (of_nat i + of_nat f / 10 ^ length fp)
              | _ \<Rightarrow> None)"

definition digit_char :: "nat \<Rightarrow> char" where
  "digit_char d = ''0123456789'' ! d"

function show_nat :: "nat \<Rightarrow> string" where
  "show_nat n =
     (if n < 10 then [digit_char n]
      else show_nat (n div 10) @ [digit_char (n mod 10)])"
  by pat_completeness auto
termination
  by (relation "measure id") auto

declare show_nat.simps [simp del]

definition round_half_even :: "rat \<Rightarrow> int" where
  "round_half_even x =
     (let q = \<lfloor>x\<rfloor>; r = x - of_int q
      in if r < 1 / 2 then q else if 1 / 2 < r then q + 1 else if even q then q else q + 1)"

definition dec_fmt2 :: "rat \<Rightarrow> string" where
  "dec_fmt2 x =
     (let n = nat (round_half_even (\<bar>x\<bar> * 100))
      in (if x < 0 then ''-'' else []) @ show_nat (n div 100) @ ''.''
           @ [digit_char (n mod 100 div 10), digit_char (n mod 10)])"

text \<open>Budgets and clients for the concrete runs.\<close>

definition usd :: "string \<Rightarrow> money" where
  "usd amount = \<lparr>Amount = Some amount, Unit = Some ''USD''\<rparr>"

definition mk_budget :: "string \<Rightarrow> string \<Rightarrow> string \<Rightarrow> string option \<Rightarrow> budget" where
  "mk_budget name limit actual forecast =
     \<lparr>BudgetName = Some name, BudgetLimit = Some (usd limit),
      CalculatedSpend =
        Some \<lparr>ActualSpend = Some (usd actual), ForecastedSpend = map_option usd forecast\<rparr>\<rparr>"

definition account_with :: "budget list \<Rightarrow> aws" where
  "account_with budgets =
     \<lparr>get_caller_identity = Inr ''123456789012'',
      describe_budget = (\<lambda>account name.
        case filter (\<lambda>b. BudgetName b = Some name) budgets of
          [] \<Rightarrow> Inl (ClientError ''NotFoundException'')
        | b # bs \<Rightarrow> Inr b),
      paginate = (\<lambda>account. Inr [budgets])\<rparr>"

definition failing_with :: "py_exn \<Rightarrow> aws" where
  "failing_with e =
     \<lparr>get_caller_identity = Inr ''123456789012'',
      describe_budget = (\<lambda>account name. Inl e),
      paginate = (\<lambda>account. Inl e)\<rparr>"

text \<open>
  Scenario A of the specification (forecast above the limit), scenario B (no forecast,
  actual spend below the limit), a budget whose forecast stays below the limit, a budget
  whose forecast equals the limit, a budget whose limit is written \<open>100.0\<close>, and two records that lack a key.
\<close>

definition scenario_a :: budget where
  "scenario_a = mk_budget ''infra'' ''100.00'' ''80.00'' (Some ''120.00'')"

definition scenario_b :: budget where
  "scenario_b = mk_budget ''infra'' ''100.00'' ''80.00'' None"

definition compliant :: budget where
  "compliant = mk_budget ''web'' ''100.00'' ''80.00'' (Some ''80.00'')"

definition at_limit :: budget where
  "at_limit = mk_budget ''infra'' ''100.00'' ''80.00'' (Some ''100.00'')"

definition one_decimal :: budget where
  "one_decimal = mk_budget ''infra'' ''100.0'' ''80.00'' (Some ''120.00'')"

definition no_limit :: budget where
  "no_limit = scenario_a\<lparr>BudgetLimit := None\<rparr>"

definition no_actual :: budget where
  "no_actual =
     \<lparr>BudgetName = Some ''infra'', BudgetLimit = Some (usd ''100.00''),
      CalculatedSpend =
        Some \<lparr>ActualSpend = None, ForecastedSpend = Some (usd ''80.00'')\<rparr>\<rparr>"

text \<open>A record without \<open>ActualSpend\<close> whose forecast \<open>float\<close> does not read.\<close>

definition unreadable_forecast :: budget where
  "unreadable_forecast =
     \<lparr>BudgetName = Some ''infra'', BudgetLimit = Some (usd ''100.00''),
      CalculatedSpend =
        Some \<lparr>ActualSpend = None, ForecastedSpend = Some (usd ''abc'')\<rparr>\<rparr>"

section \<open>Evaluation of the concrete instance\<close>

lemma dec_float_80: "dec_float ''80.00'' = Some 80"
  by (simp add: dec_float_def digit_of_def)

lemma dec_float_100: "dec_float ''100.00'' = Some 100"
  by (simp add: dec_float_def digit_of_def)

lemma dec_float_100_0: "dec_float ''100.0'' = Some 100"
  by (simp add: dec_float_def digit_of_def)

lemma dec_float_120: "dec_float ''120.00'' = Some 120"
  by (simp add: dec_float_def digit_of_def)

lemma dec_fmt2_80: "dec_fmt2 80 = ''80.00''"
  by (simp add: dec_fmt2_def round_half_even_def show_nat.simps digit_char_def)

lemma dec_fmt2_100: "dec_fmt2 100 = ''100.00''"
  by (simp add: dec_fmt2_def round_half_even_def show_nat.simps digit_char_def)

lemma dec_fmt2_120: "dec_fmt2 120 = ''120.00''"
  by (simp add: dec_fmt2_def round_half_even_def show_nat.simps digit_char_def)

lemmas dec_evals =
  dec_float_80 dec_float_100 dec_float_100_0 dec_float_120 dec_fmt2_80 dec_fmt2_100 dec_fmt2_120

section \<open>The two loops\<close>

text \<open>
  The loop of \<open>get_overspend\<close> appends, under each key, the strings of the records that
  chose the key, in the order of the input.
\<close>

lemma overspend_loop_append:
  "overspend_loop flt fmt2 res bs = Inr res' \<Longrightarrow>
     res' = (\<lambda>key. res key @ map (descriptor flt fmt2)
                      (filter (\<lambda>b. is_overspent flt fmt2 b = key) bs))"
proof (induction bs arbitrary: res)
  case Nil
  then show ?case by auto
next
  case (Cons b bs)
  then obtain key item where e: "overspend_entry flt fmt2 b = Inr (key, item)"
    by (auto split: sum.splits)
  with Cons.prems have "overspend_loop flt fmt2 (res_append res key item) bs = Inr res'"
    by simp
  from Cons.IH [OF this] e show ?case
    by (auto simp: res_append_def is_overspent_def descriptor_def fun_eq_iff)
qed

lemma overspend_loop_total:
  "(\<And>b. b \<in> set bs \<Longrightarrow> \<exists>e. overspend_entry flt fmt2 b = Inr e) \<Longrightarrow>
     \<exists>res'. overspend_loop flt fmt2 res bs = Inr res'"
proof (induction bs arbitrary: res)
  case Nil
  then show ?case by simp
next
  case (Cons b bs)
  then obtain key item where e: "overspend_entry flt fmt2 b = Inr (key, item)"
    by fastforce
  from Cons.IH [of "res_append res key item"] Cons.prems e show ?case
    by auto
qed

lemma overspend_loop_raises:
  "b \<in> set bs \<Longrightarrow> overspend_entry flt fmt2 b = Inl e \<Longrightarrow>
     \<exists>e'. overspend_loop flt fmt2 res bs = Inl e'"
  by (induction bs arbitrary: res) (auto split: sum.splits)

lemma get_overspend_groups:
  "get_overspend flt fmt2 bs = Inr res \<Longrightarrow>
     res True = map (descriptor flt fmt2) (filter (is_overspent flt fmt2) bs) \<and>
     res False = map (descriptor flt fmt2) (filter (\<lambda>b. \<not> is_overspent flt fmt2 b) bs)"
  unfolding get_overspend_def by (drule overspend_loop_append) simp

lemma perfdata_loop_append:
  "perfdata_loop acc bs = Inr toks \<Longrightarrow>
     \<exists>ts. toks = acc @ ts \<and> map perfdata_token bs = map Inr ts"
proof (induction bs arbitrary: acc)
  case Nil
  then show ?case by simp
next
  case (Cons b bs)
  then obtain t where t: "perfdata_token b = Inr t"
    by (auto split: sum.splits)
  with Cons.prems have "perfdata_loop (acc @ [t]) bs = Inr toks" by simp
  from Cons.IH [OF this] t show ?case by auto
qed

lemma perfdata_loop_total:
  "map perfdata_token bs = map Inr ts \<Longrightarrow> perfdata_loop acc bs = Inr (acc @ ts)"
  by (induction bs arbitrary: acc ts) auto

lemma perfdata_loop_raises:
  "b \<in> set bs \<Longrightarrow> perfdata_token b = Inl e \<Longrightarrow> \<exists>e'. perfdata_loop acc bs = Inl e'"
  by (induction bs arbitrary: acc) (auto split: sum.splits)

section \<open>Single records\<close>

text \<open>
  What the two loop bodies give on one record, from the subscripts that succeed on it,
  and their values on the example records.
\<close>

lemmas lookup_defs =
  and_then_def subscript_def limit_amount_def forecast_amount_def actual_amount_def
  actual_unit_def py_float_def try_except_KeyError_def

lemma scenario_a_lookups:
  "BudgetName scenario_a = Some ''infra''"
  "limit_amount scenario_a = Inr ''100.00''"
  "forecast_amount scenario_a = Inr ''120.00''"
  "actual_amount scenario_a = Inr ''80.00''"
  "actual_unit scenario_a = Inr ''USD''"
  by (simp_all add: scenario_a_def mk_budget_def usd_def lookup_defs)

lemma scenario_b_lookups:
  "BudgetName scenario_b = Some ''infra''"
  "limit_amount scenario_b = Inr ''100.00''"
  "forecast_amount scenario_b = Inl (KeyError ''ForecastedSpend'')"
  "actual_amount scenario_b = Inr ''80.00''"
  "actual_unit scenario_b = Inr ''USD''"
  by (simp_all add: scenario_b_def mk_budget_def usd_def lookup_defs)

lemma entry_forecast:
  "BudgetName b = Some name \<Longrightarrow> limit_amount b = Inr ls \<Longrightarrow> flt ls = Some limit \<Longrightarrow>
   forecast_amount b = Inr fs \<Longrightarrow> flt fs = Some forecast \<Longrightarrow>
   overspend_entry flt fmt2 b =
     Inr (forecast > limit, name @ ''(fcst:'' @ fmt2 forecast @ '';limit:'' @ fmt2 limit @ '')'')"
  by (simp add: overspend_entry_def and_then_def subscript_def py_float_def
      try_except_KeyError_def)

lemma forecast_amount_raises: "forecast_amount b = Inl e \<Longrightarrow> \<exists>k. e = KeyError k"
  by (auto simp: forecast_amount_def and_then_def subscript_def split: option.splits)

lemma entry_actual:
  "BudgetName b = Some name \<Longrightarrow> limit_amount b = Inr ls \<Longrightarrow> flt ls = Some limit \<Longrightarrow>
   forecast_amount b = Inl e \<Longrightarrow> actual_amount b = Inr as \<Longrightarrow> flt as = Some actual \<Longrightarrow>
   overspend_entry flt fmt2 b =
     Inr (actual > limit, ''{name}(act:{actual:.2f};limit:{limit:.2f})'')"
  by (frule forecast_amount_raises)
     (auto simp: overspend_entry_def and_then_def subscript_def py_float_def
      try_except_KeyError_def)

lemma scenario_a_entry:
  "overspend_entry dec_float dec_fmt2 scenario_a = Inr (True, ''infra(fcst:120.00;limit:100.00)'')"
  using entry_forecast [of scenario_a _ _ dec_float _ _ _ dec_fmt2,
      OF scenario_a_lookups(1,2) dec_float_100 scenario_a_lookups(3) dec_float_120]
  by (simp add: dec_evals)

lemma scenario_b_entry:
  "overspend_entry dec_float dec_fmt2 scenario_b =
     Inr (False, ''{name}(act:{actual:.2f};limit:{limit:.2f})'')"
  using entry_actual [of scenario_b _ _ dec_float _ _ _ _ dec_fmt2,
      OF scenario_b_lookups(1,2) dec_float_100 scenario_b_lookups(3,4) dec_float_80]
  by simp

text \<open>
  The loop body completes on a record that has a name, a limit and an actual amount that
  \<open>float\<close> reads, and whose forecast, if it has one, \<open>float\<close> reads too.
\<close>

lemma entry_well_formed:
  assumes "BudgetName b = Some name" and "limit_amount b = Inr ls" and "flt ls = Some limit"
    and "actual_amount b = Inr as" and "flt as = Some actual"
    and "\<And>fs. forecast_amount b = Inr fs \<Longrightarrow> \<exists>forecast. flt fs = Some forecast"
  shows "\<exists>e. overspend_entry flt fmt2 b = Inr e"
proof (cases "forecast_amount b")
  case (Inl e)
  from entry_actual [OF assms(1-3) Inl assms(4,5)] show ?thesis by blast
next
  case (Inr fs)
  with assms(6) obtain forecast where "flt fs = Some forecast" by blast
  from entry_forecast [OF assms(1-3) Inr this] show ?thesis by blast
qed

lemma get_overspend_single:
  "overspend_entry flt fmt2 b = Inr (key, item) \<Longrightarrow>
     get_overspend flt fmt2 [b] = Inr ((\<lambda>k. [])(key := [item]))"
  by (simp add: get_overspend_def res_append_def)

lemma at_limit_lookups:
  "BudgetName at_limit = Some ''infra''"
  "limit_amount at_limit = Inr ''100.00''"
  "forecast_amount at_limit = Inr ''100.00''"
  by (simp_all add: at_limit_def mk_budget_def usd_def lookup_defs)

lemma compliant_lookups:
  "BudgetName compliant = Some ''web''"
  "limit_amount compliant = Inr ''100.00''"
  "forecast_amount compliant = Inr ''80.00''"
  "actual_amount compliant = Inr ''80.00''"
  "actual_unit compliant = Inr ''USD''"
  by (simp_all add: compliant_def mk_budget_def usd_def lookup_defs)

lemma compliant_entry:
  "overspend_entry dec_float dec_fmt2 compliant = Inr (False, ''web(fcst:80.00;limit:100.00)'')"
  using entry_forecast [of compliant _ _ dec_float _ _ _ dec_fmt2,
      OF compliant_lookups(1,2) dec_float_100 compliant_lookups(3) dec_float_80]
  by (simp add: dec_evals)

lemma token_fields:
  "BudgetName b = Some label \<Longrightarrow> actual_amount b = Inr v \<Longrightarrow> actual_unit b = Inr uom \<Longrightarrow>
   limit_amount b = Inr limit \<Longrightarrow>
   perfdata_token b =
     Inr ([CHR 0x27] @ label @ [CHR 0x27] @ ''='' @ v @ uom @ '';'' @ limit @ '';'' @ limit)"
  by (simp add: perfdata_token_def and_then_def subscript_def)

lemma scenario_a_token:
  "perfdata_token scenario_a =
     Inr ([CHR 0x27] @ ''infra'' @ [CHR 0x27] @ ''=80.00USD;100.00;100.00'')"
  using token_fields [OF scenario_a_lookups(1,4,5,2)] by simp

lemma scenario_b_token:
  "perfdata_token scenario_b =
     Inr ([CHR 0x27] @ ''infra'' @ [CHR 0x27] @ ''=80.00USD;100.00;100.00'')"
  using token_fields [OF scenario_b_lookups(1,4,5,2)] by simp

lemma compliant_token:
  "perfdata_token compliant =
     Inr ([CHR 0x27] @ ''web'' @ [CHR 0x27] @ ''=80.00USD;100.00;100.00'')"
  using token_fields [OF compliant_lookups(1,4,5,2)] by simp

lemma get_perfdata_tokens:
  "map perfdata_token bs = map Inr toks \<Longrightarrow> get_perfdata bs = Inr (''| '' @ join '' '' toks)"
  by (simp add: get_perfdata_def perfdata_loop_total [of bs toks "[]"])

lemma tokens_exist:
  "\<forall>b\<in>set bs. \<exists>t. perfdata_token b = Inr t \<Longrightarrow> \<exists>toks. map perfdata_token bs = map Inr toks"
proof (induction bs)
  case Nil
  then show ?case by simp
next
  case (Cons b bs)
  then obtain t toks where "perfdata_token b = Inr t" "map perfdata_token bs = map Inr toks"
    by auto
  then have "map perfdata_token (b # bs) = map Inr (t # toks)" by simp
  then show ?case by blast
qed

lemma get_overspend_total:
  "\<forall>b\<in>set bs. \<exists>e. overspend_entry flt fmt2 b = Inr e \<Longrightarrow>
     \<exists>res. get_overspend flt fmt2 bs = Inr res"
  unfolding get_overspend_def using overspend_loop_total [of bs flt fmt2 "\<lambda>key. []"]
  by blast

lemma scenario_a_overspent: "is_overspent dec_float dec_fmt2 scenario_a"
  by (simp add: is_overspent_def scenario_a_entry)

lemma compliant_within: "\<not> is_overspent dec_float dec_fmt2 compliant"
  by (simp add: is_overspent_def compliant_entry)

text \<open>The pages of \<open>describe_budgets\<close> are collected in order.\<close>

lemma collect_page_append: "collect_page acc page = acc @ page"
  by (induction page arbitrary: acc) auto

lemma collect_pages_concat: "collect_pages acc pages = acc @ concat pages"
  by (induction pages arbitrary: acc) (auto simp: collect_page_append)

lemma fetch_account_with: "fetch (account_with bs) None = Inr bs"
  by (simp add: fetch_def fetch_budgets_def account_with_def and_then_def collect_pages_concat)

lemma overspent_iff:
  "get_overspend flt fmt2 bs = Inr res \<Longrightarrow>
     res True \<noteq> [] \<longleftrightarrow> (\<exists>b\<in>set bs. is_overspent flt fmt2 b)"
  by (drule get_overspend_groups) (auto simp: filter_empty_conv)

text \<open>The token of a record does not read its forecast.\<close>

lemma token_with_forecast: "perfdata_token (with_forecast fc b) = perfdata_token b"
  by (cases "CalculatedSpend b")
     (simp_all add: with_forecast_def perfdata_token_def actual_amount_def actual_unit_def
        limit_amount_def and_then_def subscript_def)

lemma perfdata_loop_with_forecast:
  "perfdata_loop acc (map (\<lambda>b. with_forecast (fc b) b) bs) = perfdata_loop acc bs"
  by (induction bs arbitrary: acc) (auto simp: token_with_forecast split: sum.splits)

text \<open>Records that lack a key.\<close>

lemma no_limit_entry: "overspend_entry flt fmt2 no_limit = Inl (KeyError ''BudgetLimit'')"
  by (simp add: no_limit_def scenario_a_def mk_budget_def overspend_entry_def lookup_defs)

lemma token_needs_fields:
  "(\<exists>e. limit_amount b = Inl e) \<or> (\<exists>e. actual_amount b = Inl e) \<Longrightarrow>
     \<exists>e. perfdata_token b = Inl e"
  by (auto simp: perfdata_token_def and_then_def split: sum.splits)

lemma no_actual_lookups:
  "BudgetName no_actual = Some ''infra''"
  "limit_amount no_actual = Inr ''100.00''"
  "forecast_amount no_actual = Inr ''80.00''"
  "actual_amount no_actual = Inl (KeyError ''ActualSpend'')"
  by (simp_all add: no_actual_def usd_def lookup_defs)

text \<open>The exceptions the two loops can raise, and the record that raised them.\<close>

lemma entry_raises:
  "overspend_entry flt fmt2 b = Inl e \<Longrightarrow> (\<exists>k. e = KeyError k) \<or> (\<exists>s. e = ValueError s)"
  by (auto simp: overspend_entry_def lookup_defs split: option.splits sum.splits py_exn.splits)

lemma token_raises: "perfdata_token b = Inl e \<Longrightarrow> \<exists>k. e = KeyError k"
  by (auto simp: perfdata_token_def lookup_defs split: option.splits sum.splits)

lemma overspend_loop_raised:
  "overspend_loop flt fmt2 res bs = Inl e \<Longrightarrow> \<exists>b\<in>set bs. overspend_entry flt fmt2 b = Inl e"
  by (induction bs arbitrary: res) (auto split: sum.splits)

lemma perfdata_loop_raised:
  "perfdata_loop acc bs = Inl e \<Longrightarrow> \<exists>b\<in>set bs. perfdata_token b = Inl e"
  by (induction bs arbitrary: acc) (auto split: sum.splits)

lemma dec_float_abc: "dec_float ''abc'' = None"
  by (simp add: dec_float_def digit_of_def)

lemma unreadable_forecast_entry:
  "overspend_entry dec_float dec_fmt2 unreadable_forecast = Inl (ValueError ''abc'')"
  by (simp add: unreadable_forecast_def usd_def overspend_entry_def lookup_defs
      dec_float_100 dec_float_abc)

section \<open>Classification\<close>

text \<open>
  Claim C1 (forecast first). For a record with a name and a limit that \<open>float\<close> reads:
  when the forecast amount is present (and \<open>float\<close> reads it), \<open>get_overspend\<close> files
  the record under the key \<open>forecast > limit\<close>, whatever the actual spend is, present or
  not; when the forecast amount is absent, it files the record under the key
  \<open>actual > limit\<close>.
\<close>

theorem forecast_first:
  assumes "BudgetName b = Some name" and "limit_amount b = Inr ls" and "flt ls = Some limit"
  shows "(\<forall>fs forecast. forecast_amount b = Inr fs \<and> flt fs = Some forecast \<longrightarrow>
            (\<exists>item. get_overspend flt fmt2 [b] = Inr ((\<lambda>key. [])(forecast > limit := [item])))) \<and>
         (\<forall>e as actual. forecast_amount b = Inl e \<and> actual_amount b = Inr as \<and>
              flt as = Some actual \<longrightarrow>
            (\<exists>item. get_overspend flt fmt2 [b] = Inr ((\<lambda>key. [])(actual > limit := [item]))))"
  using assms by (blast intro: get_overspend_single entry_forecast entry_actual)

theorem forecast_first_witness:
  "get_overspend dec_float dec_fmt2 [scenario_a] =
     Inr ((\<lambda>key. [])(True := [''infra(fcst:120.00;limit:100.00)''])) \<and>
   (\<exists>item. get_overspend dec_float dec_fmt2 [scenario_a] =
      Inr ((\<lambda>key. [])((120::rat) > 100 := [item]))) \<and>
   actual_amount scenario_a = Inr ''80.00'' \<and> dec_float ''80.00'' = Some 80 \<and>
   (\<exists>item. get_overspend dec_float dec_fmt2 [scenario_b] =
      Inr ((\<lambda>key. [])((80::rat) > 100 := [item])))"
proof -
  note a = forecast_first [of scenario_a _ _ dec_float _ dec_fmt2,
      OF scenario_a_lookups(1,2) dec_float_100]
  note b = forecast_first [of scenario_b _ _ dec_float _ dec_fmt2,
      OF scenario_b_lookups(1,2) dec_float_100]
  from a have 1: "\<exists>item. get_overspend dec_float dec_fmt2 [scenario_a] =
      Inr ((\<lambda>key. [])((120::rat) > 100 := [item]))"
    using scenario_a_lookups(3) dec_float_120 by blast
  from b have 2: "\<exists>item. get_overspend dec_float dec_fmt2 [scenario_b] =
      Inr ((\<lambda>key. [])((80::rat) > 100 := [item]))"
    using scenario_b_lookups(3,4) dec_float_80 by blast
  from 1 2 show ?thesis
    by (simp add: get_overspend_single [OF scenario_a_entry] scenario_a_lookups dec_float_80)
qed

text \<open>
  Claim C3 (strict inequality). Let \<open>amount\<close> be the amount compared: the forecast when
  it is present, the actual spend otherwise. The record is filed as overspent exactly when
  \<open>amount > limit\<close>; when the amount equals the limit the record is filed as within
  limit. The order on \<open>'n\<close> is any preorder, so that \<open>amount > amount\<close> is false, as it
  is for floats.
\<close>

theorem strict_overspend:
  fixes flt :: "string \<Rightarrow> 'n::preorder option"
  assumes "BudgetName b = Some name" and "limit_amount b = Inr ls" and "flt ls = Some limit"
    and "forecast_amount b = Inr s \<or> (\<exists>e. forecast_amount b = Inl e) \<and> actual_amount b = Inr s"
    and "flt s = Some amount"
  shows "\<exists>res item. get_overspend flt fmt2 [b] = Inr res \<and>
           res True = (if amount > limit then [item] else []) \<and>
           res False = (if amount > limit then [] else [item]) \<and>
           (amount = limit \<longrightarrow> res True = [] \<and> res False = [item])"
proof -
  from assms obtain item where
    "overspend_entry flt fmt2 b = Inr (amount > limit, item)"
    by (auto dest: entry_forecast entry_actual)
  from get_overspend_single [OF this] show ?thesis
    by (intro exI [of _ "(\<lambda>k. [])(amount > limit := [item])"] exI [of _ item]) auto
qed

theorem strict_overspend_witness:
  "forecast_amount at_limit = Inr ''100.00'' \<and> dec_float ''100.00'' = Some 100 \<and>
   (\<exists>res item. get_overspend dec_float dec_fmt2 [at_limit] = Inr res \<and>
      res True = [] \<and> res False = [item])"
  using strict_overspend [of at_limit _ _ dec_float _ _ _ dec_fmt2,
      OF at_limit_lookups(1,2) dec_float_100 disjI1 [OF at_limit_lookups(3)] dec_float_100]
  by (auto simp: at_limit_lookups dec_float_100)



section \<open>The output line\<close>

text \<open>
  Claim C8 (partition and coverage). When the loop bodies of \<open>get_overspend\<close> and
  \<open>get_perfdata\<close> complete on every record: the strings under \<open>True\<close> are those of the
  overspent records and the strings under \<open>False\<close> those of the others, each group in
  the order of the input; the performance data holds one token for every record, in the
  order of the input; and when some record is overspent the line printed lists the
  strings under \<open>True\<close> only, followed by the tokens of all records.
\<close>

theorem partition_and_coverage:
  assumes "\<forall>b\<in>set bs. \<exists>e. overspend_entry flt fmt2 b = Inr e"
    and "\<forall>b\<in>set bs. \<exists>t. perfdata_token b = Inr t"
  shows "\<exists>res toks. get_overspend flt fmt2 bs = Inr res \<and>
           res True = map (descriptor flt fmt2) (filter (is_overspent flt fmt2) bs) \<and>
           res False = map (descriptor flt fmt2) (filter (\<lambda>b. \<not> is_overspent flt fmt2 b) bs) \<and>
           map perfdata_token bs = map Inr toks \<and>
           get_perfdata bs = Inr (''| '' @ join '' '' toks) \<and>
           (res True \<noteq> [] \<longrightarrow>
              evaluate flt fmt2 bs =
                Exit STATE_CRIT (''Budget forecast exceeds limit: '' @ join '', '' (res True)
                  @ ''| '' @ join '' '' toks))"
proof -
  from assms(1) obtain res where res: "get_overspend flt fmt2 bs = Inr res"
    using get_overspend_total by blast
  from assms(2) obtain toks where toks: "map perfdata_token bs = map Inr toks"
    using tokens_exist by blast
  note perf = get_perfdata_tokens [OF toks]
  have "res True \<noteq> [] \<longrightarrow>
          evaluate flt fmt2 bs =
            Exit STATE_CRIT (''Budget forecast exceeds limit: '' @ join '', '' (res True)
              @ ''| '' @ join '' '' toks)"
    by (simp add: evaluate_def res perf report_def)
  with res toks perf get_overspend_groups [OF res] show ?thesis by blast
qed

theorem partition_and_coverage_witness:
  "get_overspend dec_float dec_fmt2 [scenario_a, compliant] =
     Inr (\<lambda>key. if key then [''infra(fcst:120.00;limit:100.00)'']
                 else [''web(fcst:80.00;limit:100.00)'']) \<and>
   evaluate dec_float dec_fmt2 [scenario_a, compliant] =
     Exit STATE_CRIT (''Budget forecast exceeds limit: infra(fcst:120.00;limit:100.00)| ''
       @ [CHR 0x27] @ ''infra'' @ [CHR 0x27] @ ''=80.00USD;100.00;100.00 ''
       @ [CHR 0x27] @ ''web'' @ [CHR 0x27] @ ''=80.00USD;100.00;100.00'')"
proof -
  have 1: "\<forall>b\<in>set [scenario_a, compliant]. \<exists>e. overspend_entry dec_float dec_fmt2 b = Inr e"
    by (auto simp: scenario_a_entry compliant_entry)
  have 2: "\<forall>b\<in>set [scenario_a, compliant]. \<exists>t. perfdata_token b = Inr t"
    by (auto simp: scenario_a_token compliant_token)
  from partition_and_coverage [OF 1 2] obtain res toks where
    r: "get_overspend dec_float dec_fmt2 [scenario_a, compliant] = Inr res"
      "res True = map (descriptor dec_float dec_fmt2)
         (filter (is_overspent dec_float dec_fmt2) [scenario_a, compliant])"
      "res False = map (descriptor dec_float dec_fmt2)
         (filter (\<lambda>b. \<not> is_overspent dec_float dec_fmt2 b) [scenario_a, compliant])"
      "map perfdata_token [scenario_a, compliant] = map Inr toks"
      "res True \<noteq> [] \<longrightarrow>
         evaluate dec_float dec_fmt2 [scenario_a, compliant] =
           Exit STATE_CRIT (''Budget forecast exceeds limit: '' @ join '', '' (res True)
             @ ''| '' @ join '' '' toks)"
    by blast
  from r(2) have t: "res True = [''infra(fcst:120.00;limit:100.00)'']"
    by (simp add: scenario_a_overspent compliant_within descriptor_def scenario_a_entry)
  from r(3) have f: "res False = [''web(fcst:80.00;limit:100.00)'']"
    by (simp add: scenario_a_overspent compliant_within descriptor_def compliant_entry)
  from r(4) have k: "toks = [[CHR 0x27] @ ''infra'' @ [CHR 0x27] @ ''=80.00USD;100.00;100.00'',
      [CHR 0x27] @ ''web'' @ [CHR 0x27] @ ''=80.00USD;100.00;100.00'']"
    by (auto simp: scenario_a_token compliant_token)
  have "res = (\<lambda>key. if key then [''infra(fcst:120.00;limit:100.00)'']
                 else [''web(fcst:80.00;limit:100.00)''])"
    using t f by (auto simp: fun_eq_iff)
  with r(1,5) t k show ?thesis by simp
qed

text \<open>
  Claim C2 (aggregation and exit codes). For a run whose fetch returns the records
  \<open>bs\<close>, every one of which the two loop bodies accept: the run exits with
  \<open>STATE_CRIT\<close>, which is 2, when some record is overspent, and with \<open>STATE_OK\<close>,
  which is 0, when none is; with no record at all it exits with 0 and prints the
  within-limit line with nothing in it.
\<close>

theorem aggregation_exit_codes:
  assumes "fetch client arg = Inr bs"
    and "\<forall>b\<in>set bs. \<exists>e. overspend_entry flt fmt2 b = Inr e"
    and "\<forall>b\<in>set bs. \<exists>t. perfdata_token b = Inr t"
  shows "(\<exists>line. main flt fmt2 client arg =
            Exit (if \<exists>b\<in>set bs. is_overspent flt fmt2 b then STATE_CRIT else STATE_OK) line) \<and>
         STATE_CRIT = 2 \<and> STATE_OK = 0 \<and>
         (bs = [] \<longrightarrow> main flt fmt2 client arg = Exit 0 ''Budgets forecast within limit: | '')"
proof -
  from assms(2) obtain res where res: "get_overspend flt fmt2 bs = Inr res"
    using get_overspend_total by blast
  from assms(3) obtain toks where toks: "map perfdata_token bs = map Inr toks"
    using tokens_exist by blast
  note perf = get_perfdata_tokens [OF toks]
  have m: "main flt fmt2 client arg = report res (''| '' @ join '' '' toks)"
    by (simp add: main_def assms(1) evaluate_def res perf)
  have 1: "\<exists>line. main flt fmt2 client arg =
            Exit (if \<exists>b\<in>set bs. is_overspent flt fmt2 b then STATE_CRIT else STATE_OK) line"
    unfolding m report_def using overspent_iff [OF res] by simp
  have 2: "bs = [] \<longrightarrow> main flt fmt2 client arg = Exit 0 ''Budgets forecast within limit: | ''"
  proof
    assume e: "bs = []"
    with res have "res = (\<lambda>key. [])" by (simp add: get_overspend_def)
    moreover from toks e have "toks = []" by simp
    ultimately show "main flt fmt2 client arg = Exit 0 ''Budgets forecast within limit: | ''"
      unfolding m by (simp add: report_def STATE_OK_def)
  qed
  from 1 2 show ?thesis by (simp add: STATE_CRIT_def STATE_OK_def)
qed

theorem aggregation_exit_codes_witness:
  "(\<exists>line. main dec_float dec_fmt2 (account_with [scenario_a, compliant]) None = Exit 2 line) \<and>
   (\<exists>line. main dec_float dec_fmt2 (account_with [compliant]) None = Exit 0 line) \<and>
   main dec_float dec_fmt2 (account_with []) None = Exit 0 ''Budgets forecast within limit: | ''"
proof -
  have 1: "\<forall>b\<in>set [scenario_a, compliant]. \<exists>e. overspend_entry dec_float dec_fmt2 b = Inr e"
    by (auto simp: scenario_a_entry compliant_entry)
  have 2: "\<forall>b\<in>set [scenario_a, compliant]. \<exists>t. perfdata_token b = Inr t"
    by (auto simp: scenario_a_token compliant_token)
  have 3: "\<forall>b\<in>set [compliant]. \<exists>e. overspend_entry dec_float dec_fmt2 b = Inr e"
    by (auto simp: compliant_entry)
  have 4: "\<forall>b\<in>set [compliant]. \<exists>t. perfdata_token b = Inr t"
    by (auto simp: compliant_token)
  have 5: "\<forall>b\<in>set []. \<exists>e. overspend_entry dec_float dec_fmt2 b = Inr e" by simp
  have 6: "\<forall>b\<in>set []. \<exists>t. perfdata_token b = Inr t" by simp
  from aggregation_exit_codes [OF fetch_account_with 1 2]
    aggregation_exit_codes [OF fetch_account_with 3 4]
    aggregation_exit_codes [OF fetch_account_with 5 6]
  show ?thesis
    by (simp add: scenario_a_overspent compliant_within)
qed

section \<open>Performance data\<close>

text \<open>
  Claim C7 (perfdata rendering). For records with a name, an actual amount with its
  unit and a limit amount: \<open>get_perfdata\<close> returns \<open>| \<close> followed by the tokens joined
  by one space, the token of a record being its name between single quotes, \<open>=\<close>, the
  actual amount directly followed by its unit, and the limit twice after semicolons; replacing or removing
  the forecast of any record changes nothing (that part needs no hypothesis); and the
  line printed is the summary text of the verdict (the prefix of \<open>CRITICAL\<close> with the
  strings under \<open>True\<close>, or the prefix of \<open>OK\<close> with the strings under \<open>False\<close>,
  joined by a comma and a space) directly followed by this block.
\<close>

theorem perfdata_rendering:
  assumes "\<forall>b\<in>set bs. BudgetName b = Some (label b) \<and> actual_amount b = Inr (val b) \<and>
             actual_unit b = Inr (uom b) \<and> limit_amount b = Inr (limit b)"
  shows "get_perfdata bs =
           Inr (''| '' @ join '' '' (map (\<lambda>b. [CHR 0x27] @ label b @ [CHR 0x27] @ ''='' @ val b
                  @ uom b @ '';'' @ limit b @ '';'' @ limit b) bs)) \<and>
         get_perfdata (map (\<lambda>b. with_forecast (fc b) b) bs) = get_perfdata bs \<and>
         (\<forall>res. get_overspend flt fmt2 bs = Inr res \<longrightarrow>
            evaluate flt fmt2 bs =
              (if res True \<noteq> []
               then Exit STATE_CRIT
                 (''Budget forecast exceeds limit: '' @ join '', '' (res True) @ ''| ''
                    @ join '' '' (map (\<lambda>b. [CHR 0x27] @ label b @ [CHR 0x27] @ ''='' @ val b
                        @ uom b @ '';'' @ limit b @ '';'' @ limit b) bs))
               else Exit STATE_OK
                 (''Budgets forecast within limit: '' @ join '', '' (res False) @ ''| ''
                    @ join '' '' (map (\<lambda>b. [CHR 0x27] @ label b @ [CHR 0x27] @ ''='' @ val b
                        @ uom b @ '';'' @ limit b @ '';'' @ limit b) bs))))"
proof -
  let ?tok = "\<lambda>b. [CHR 0x27] @ label b @ [CHR 0x27] @ ''='' @ val b @ uom b
                  @ '';'' @ limit b @ '';'' @ limit b"
  from assms have "map perfdata_token bs = map Inr (map ?tok bs)"
    by (auto simp: token_fields)
  note perf = get_perfdata_tokens [OF this]
  have same: "get_perfdata (map (\<lambda>b. with_forecast (fc b) b) bs) = get_perfdata bs"
    by (simp add: get_perfdata_def perfdata_loop_with_forecast)
  have line: "evaluate flt fmt2 bs =
      (if res True \<noteq> []
       then Exit STATE_CRIT
         (''Budget forecast exceeds limit: '' @ join '', '' (res True) @ ''| ''
            @ join '' '' (map ?tok bs))
       else Exit STATE_OK
         (''Budgets forecast within limit: '' @ join '', '' (res False) @ ''| ''
            @ join '' '' (map ?tok bs)))"
    if "get_overspend flt fmt2 bs = Inr res" for res
    using that perf by (simp add: evaluate_def report_def)
  from perf same line show ?thesis by blast
qed

theorem perfdata_rendering_witness:
  "get_perfdata [scenario_a, compliant] =
     Inr (''| '' @ [CHR 0x27] @ ''infra'' @ [CHR 0x27] @ ''=80.00USD;100.00;100.00 ''
       @ [CHR 0x27] @ ''web'' @ [CHR 0x27] @ ''=80.00USD;100.00;100.00'') \<and>
   evaluate dec_float dec_fmt2 [scenario_a, compliant] =
     Exit STATE_CRIT (''Budget forecast exceeds limit: infra(fcst:120.00;limit:100.00)| ''
       @ [CHR 0x27] @ ''infra'' @ [CHR 0x27] @ ''=80.00USD;100.00;100.00 ''
       @ [CHR 0x27] @ ''web'' @ [CHR 0x27] @ ''=80.00USD;100.00;100.00'') \<and>
   evaluate dec_float dec_fmt2 [compliant] =
     Exit STATE_OK (''Budgets forecast within limit: web(fcst:80.00;limit:100.00)| ''
       @ [CHR 0x27] @ ''web'' @ [CHR 0x27] @ ''=80.00USD;100.00;100.00'')"
proof -
  let ?label = "\<lambda>b. case BudgetName b of Some n \<Rightarrow> n | None \<Rightarrow> []"
  let ?get = "\<lambda>f (b::budget). case f b of Inr (v::string) \<Rightarrow> v | Inl (e::py_exn) \<Rightarrow> []"
  have h: "\<forall>b\<in>set [scenario_a, compliant].
      BudgetName b = Some (?label b) \<and> actual_amount b = Inr (?get actual_amount b) \<and>
      actual_unit b = Inr (?get actual_unit b) \<and> limit_amount b = Inr (?get limit_amount b)"
    by (simp add: scenario_a_lookups compliant_lookups)
  have h': "\<forall>b\<in>set [compliant].
      BudgetName b = Some (?label b) \<and> actual_amount b = Inr (?get actual_amount b) \<and>
      actual_unit b = Inr (?get actual_unit b) \<and> limit_amount b = Inr (?get limit_amount b)"
    by (simp add: compliant_lookups)
  have r: "get_overspend dec_float dec_fmt2 [scenario_a, compliant] =
      Inr (\<lambda>key. if key then [''infra(fcst:120.00;limit:100.00)'']
                  else [''web(fcst:80.00;limit:100.00)''])"
    by (auto simp: get_overspend_def scenario_a_entry compliant_entry res_append_def fun_eq_iff)
  note r' = get_overspend_single [OF compliant_entry]
  from perfdata_rendering [OF h, THEN conjunct1]
    perfdata_rendering [OF h, THEN conjunct2, THEN conjunct2, rule_format, OF r]
    perfdata_rendering [OF h', THEN conjunct2, THEN conjunct2, rule_format, OF r']
  show ?thesis
    by (simp add: scenario_a_lookups compliant_lookups)
qed

text \<open>
  Claim C10 (perfdata amounts are verbatim). The token holds the strings of the record
  as they are, whatever they are: no \<open>float\<close>, no \<open>:.2f\<close>. So a limit written
  \<open>100.0\<close> is \<open>100.0\<close> in the token and \<open>100.00\<close> in the descriptor of the same
  record.
\<close>

theorem perfdata_verbatim:
  "get_perfdata [\<lparr>BudgetName = Some label, BudgetLimit = Some \<lparr>Amount = Some limit, Unit = lu\<rparr>,
      CalculatedSpend = Some \<lparr>ActualSpend = Some \<lparr>Amount = Some val, Unit = Some uom\<rparr>,
                               ForecastedSpend = fc\<rparr>\<rparr>] =
     Inr (''| '' @ [CHR 0x27] @ label @ [CHR 0x27] @ ''='' @ val @ uom
            @ '';'' @ limit @ '';'' @ limit) \<and>
   get_perfdata [one_decimal] =
     Inr (''| '' @ [CHR 0x27] @ ''infra'' @ [CHR 0x27] @ ''=80.00USD;100.0;100.0'') \<and>
   get_overspend dec_float dec_fmt2 [one_decimal] =
     Inr ((\<lambda>key. [])(True := [''infra(fcst:120.00;limit:100.00)'']))"
proof -
  have 1: "BudgetName one_decimal = Some ''infra''"
    "limit_amount one_decimal = Inr ''100.0''"
    "forecast_amount one_decimal = Inr ''120.00''"
    by (simp_all add: one_decimal_def mk_budget_def usd_def lookup_defs)
  have "overspend_entry dec_float dec_fmt2 one_decimal =
      Inr (True, ''infra(fcst:120.00;limit:100.00)'')"
    using entry_forecast [of one_decimal _ _ dec_float _ _ _ dec_fmt2,
        OF 1(1,2) dec_float_100_0 1(3) dec_float_120]
    by (simp add: dec_evals)
  from get_overspend_single [OF this] show ?thesis
    by (simp add: get_perfdata_def perfdata_token_def lookup_defs one_decimal_def
        mk_budget_def usd_def)
qed

section \<open>The descriptor of the actual-spend branch\<close>

text \<open>
  Claim C4 (descriptor rendering), at scenario B of the specification: name \<open>infra\<close>,
  limit \<open>100.00\<close>, actual spend \<open>80.00\<close>, no forecast. The claim gives the descriptor
  \<open>infra(act:80.00;limit:100.00)\<close>. Line 76 of the source appends a plain string where
  line 73 appends an f-string, so the descriptor of this record is the text of the
  template, and so is the line that \<open>main\<close> prints. The forecast branch renders as the
  claim says (\<open>entry_forecast\<close>, \<open>scenario_a_entry\<close>).
\<close>

theorem actual_descriptor_literal:
  "get_overspend dec_float dec_fmt2 [scenario_b] =
     Inr ((\<lambda>key. [])(False := [''{name}(act:{actual:.2f};limit:{limit:.2f})''])) \<and>
   main dec_float dec_fmt2 (account_with [scenario_b]) None =
     Exit STATE_OK (''Budgets forecast within limit: {name}(act:{actual:.2f};limit:{limit:.2f})| ''
       @ [CHR 0x27] @ ''infra'' @ [CHR 0x27] @ ''=80.00USD;100.00;100.00'')"
proof -
  note res = get_overspend_single [OF scenario_b_entry]
  have "map perfdata_token [scenario_b] =
      map Inr [[CHR 0x27] @ ''infra'' @ [CHR 0x27] @ ''=80.00USD;100.00;100.00'']"
    by (simp add: scenario_b_token)
  note perf = get_perfdata_tokens [OF this]
  show ?thesis
    by (simp add: main_def fetch_account_with evaluate_def res perf report_def)
qed

section \<open>Failures\<close>

text \<open>
  What \<open>main\<close> does with an exception of the provider: with a budget name both classes
  end the run as \<open>UNKNOWN\<close>; without one \<open>BotoCoreError\<close> does, and \<open>ClientError\<close>
  is not caught.
\<close>

lemma named_mode_failure:
  assumes "name \<noteq> []"
    and "and_then (get_caller_identity client) (\<lambda>account. describe_budget client account name)
           = Inl e"
    and "e = BotoCoreError m \<or> e = ClientError m"
  shows "main flt fmt2 client (Some name) = Exit STATE_UNKNOWN (''UNKNOWN - '' @ m)"
  using assms by (auto simp: main_def fetch_def fetch_budget_def)

lemma all_mode_failure:
  assumes "arg = None \<or> arg = Some []"
    and "and_then (get_caller_identity client) (\<lambda>account. paginate client account)
           = Inl (BotoCoreError m)"
  shows "main flt fmt2 client arg = Exit STATE_UNKNOWN (''UNKNOWN - '' @ m)"
  using assms by (auto simp: main_def fetch_def fetch_budgets_def)

lemma all_mode_client_error:
  assumes "arg = None \<or> arg = Some []"
    and "and_then (get_caller_identity client) (\<lambda>account. paginate client account)
           = Inl (ClientError m)"
  shows "main flt fmt2 client arg = Uncaught (ClientError m)"
  using assms by (auto simp: main_def fetch_def fetch_budgets_def)

text \<open>
  Claim C5 (provider failure handling), at the all-budgets mode with a provider that
  raises \<open>ClientError\<close> (the class of an authorization failure reported by the service):
  the claim gives \<open>UNKNOWN\<close> with exit code 3 and the message; \<open>fetch_budgets\<close> names
  only \<open>BotoCoreError\<close> in its \<open>except\<close> clause, so the exception is not caught and no
  plug-in line is printed. The same failure with a budget name, and a \<open>BotoCoreError\<close>
  without one, end as the claim says.
\<close>

theorem fetch_budgets_client_error:
  "main dec_float dec_fmt2 (failing_with (ClientError ''AccessDeniedException'')) None =
     Uncaught (ClientError ''AccessDeniedException'') \<and>
   main dec_float dec_fmt2 (failing_with (ClientError ''AccessDeniedException'')) (Some ''infra'') =
     Exit STATE_UNKNOWN ''UNKNOWN - AccessDeniedException'' \<and>
   main dec_float dec_fmt2 (failing_with (BotoCoreError ''EndpointConnectionError'')) None =
     Exit STATE_UNKNOWN ''UNKNOWN - EndpointConnectionError''"
  by (simp add: main_def fetch_def fetch_budgets_def fetch_budget_def failing_with_def
      and_then_def)

text \<open>
  Claim C6 (malformed records), as stated, fails: a record without \<open>BudgetLimit\<close> ends
  the run with an uncaught \<open>KeyError\<close>, not in the state \<open>UNKNOWN\<close>.
\<close>

theorem missing_limit_counterexample:
  "main dec_float dec_fmt2 (account_with [no_limit]) None = Uncaught (KeyError ''BudgetLimit'') \<and>
   \<not> ends_unknown (main dec_float dec_fmt2 (account_with [no_limit]) None)"
  by (simp add: main_def fetch_account_with evaluate_def get_overspend_def no_limit_entry
      ends_unknown_def)

text \<open>
  Claim C6, amended. When a fetched record lacks the limit amount or the actual-spend
  amount, the run ends with an uncaught exception: no plug-in line is printed, the state
  is not \<open>UNKNOWN\<close>, the record is not skipped and nothing is reported as \<open>OK\<close>. The
  exception is a \<open>KeyError\<close> when \<open>float\<close> rejects no amount that the loop of
  \<open>get_overspend\<close> reads. In the witness the record has a forecast, so
  \<open>get_overspend\<close> accepts it and \<open>get_perfdata\<close> raises.
\<close>

theorem malformed_record_aborts:
  assumes "fetch client arg = Inr bs" and "b \<in> set bs"
    and "(\<exists>e. limit_amount b = Inl e) \<or> (\<exists>e. actual_amount b = Inl e)"
  shows "(\<exists>e. main flt fmt2 client arg = Uncaught e) \<and>
         \<not> ends_unknown (main flt fmt2 client arg) \<and>
         ((\<forall>r\<in>set bs. \<forall>s. overspend_entry flt fmt2 r \<noteq> Inl (ValueError s)) \<longrightarrow>
            (\<exists>k. main flt fmt2 client arg = Uncaught (KeyError k)))"
proof -
  from token_needs_fields [OF assms(3)] obtain e where "perfdata_token b = Inl e" ..
  from perfdata_loop_raises [OF assms(2) this, of "[]"]
  obtain e' where p: "get_perfdata bs = Inl e'"
    by (auto simp: get_perfdata_def)
  then have u: "\<exists>e. main flt fmt2 client arg = Uncaught e"
    by (simp add: main_def assms(1) evaluate_def split: sum.splits)
  have k: "\<exists>k. main flt fmt2 client arg = Uncaught (KeyError k)"
    if nv: "\<forall>r\<in>set bs. \<forall>s. overspend_entry flt fmt2 r \<noteq> Inl (ValueError s)"
  proof (cases "get_overspend flt fmt2 bs")
    case (Inl x)
    then obtain r where "r \<in> set bs" "overspend_entry flt fmt2 r = Inl x"
      unfolding get_overspend_def using overspend_loop_raised by blast
    with nv entry_raises obtain k where "x = KeyError k" by blast
    with Inl show ?thesis by (simp add: main_def assms(1) evaluate_def)
  next
    case (Inr res)
    from p have "perfdata_loop [] bs = Inl e'"
      by (simp add: get_perfdata_def split: sum.splits)
    then obtain r where "perfdata_token r = Inl e'"
      using perfdata_loop_raised by blast
    then obtain k where "e' = KeyError k" using token_raises by blast
    with Inr p show ?thesis by (simp add: main_def assms(1) evaluate_def)
  qed
  from u k show ?thesis by (auto simp: ends_unknown_def)
qed

theorem malformed_record_aborts_witness:
  "actual_amount no_actual = Inl (KeyError ''ActualSpend'') \<and>
   get_overspend dec_float dec_fmt2 [scenario_a, no_actual] =
     Inr (\<lambda>key. if key then [''infra(fcst:120.00;limit:100.00)'']
                 else [''infra(fcst:80.00;limit:100.00)'']) \<and>
   main dec_float dec_fmt2 (account_with [scenario_a, no_actual]) None =
     Uncaught (KeyError ''ActualSpend'') \<and>
   \<not> ends_unknown (main dec_float dec_fmt2 (account_with [scenario_a, no_actual]) None) \<and>
   (\<exists>k. main dec_float dec_fmt2 (account_with [scenario_a, no_actual]) None =
      Uncaught (KeyError k))"
proof -
  have e: "overspend_entry dec_float dec_fmt2 no_actual =
      Inr (False, ''infra(fcst:80.00;limit:100.00)'')"
    using entry_forecast [of no_actual _ _ dec_float _ _ _ dec_fmt2,
        OF no_actual_lookups(1,2) dec_float_100 no_actual_lookups(3) dec_float_80]
    by (simp add: dec_evals)
  have res: "get_overspend dec_float dec_fmt2 [scenario_a, no_actual] =
     Inr (\<lambda>key. if key then [''infra(fcst:120.00;limit:100.00)'']
                 else [''infra(fcst:80.00;limit:100.00)''])"
    by (auto simp: get_overspend_def scenario_a_entry e res_append_def fun_eq_iff)
  have t: "perfdata_token no_actual = Inl (KeyError ''ActualSpend'')"
    by (simp add: perfdata_token_def no_actual_lookups and_then_def subscript_def)
  have m: "main dec_float dec_fmt2 (account_with [scenario_a, no_actual]) None =
     Uncaught (KeyError ''ActualSpend'')"
    by (simp add: main_def fetch_account_with evaluate_def res get_perfdata_def
        scenario_a_token t)
  have h: "(\<exists>e. limit_amount no_actual = Inl e) \<or> (\<exists>e. actual_amount no_actual = Inl e)"
    by (simp add: no_actual_lookups)
  have nv: "\<forall>r\<in>set [scenario_a, no_actual]. \<forall>s.
      overspend_entry dec_float dec_fmt2 r \<noteq> Inl (ValueError s)"
    by (simp add: scenario_a_entry e)
  note inst = malformed_record_aborts [OF fetch_account_with _ h,
      of "[scenario_a, no_actual]" dec_float dec_fmt2]
  from inst have 1:
    "\<not> ends_unknown (main dec_float dec_fmt2 (account_with [scenario_a, no_actual]) None)"
    by simp
  from inst nv have 2:
    "\<exists>k. main dec_float dec_fmt2 (account_with [scenario_a, no_actual]) None =
       Uncaught (KeyError k)"
    by simp
  from res m 1 2 show ?thesis by (simp add: no_actual_lookups)
qed

text \<open>
  The hypothesis on \<open>ValueError\<close> is needed: a record without \<open>ActualSpend\<close> whose
  forecast is \<open>abc\<close> ends the run at line 72, where \<open>float\<close> raises.
\<close>

lemma unreadable_forecast_aborts:
  "actual_amount unreadable_forecast = Inl (KeyError ''ActualSpend'') \<and>
   main dec_float dec_fmt2 (account_with [unreadable_forecast]) None =
     Uncaught (ValueError ''abc'')"
  by (simp add: main_def fetch_account_with evaluate_def get_overspend_def
      unreadable_forecast_entry)
     (simp add: unreadable_forecast_def lookup_defs)

end
